theory Spec2Isabelle
  imports Main
begin

section \<open>Python values used by the chat gateway (myApp/views.py)\<close>

text \<open>
  A Python \<open>str\<close> is a sequence of Unicode code points, and \<open>len\<close>, slicing and
  \<open>strip\<close> count code points. The fixed replies of the gateway hold characters beyond
  ASCII (U+2019, U+2014, U+2026), so a string is modelled as the list of its code points.
  \<open>ascii\<close> writes the ASCII part of a literal.
\<close>

type_synonym pystr = "nat list"

definition ascii :: "string \<Rightarrow> pystr" where
  "ascii s = map of_char s"

text \<open>
  \<open>str.strip()\<close> without argument removes leading and trailing whitespace; the
  characters CPython counts as whitespace are the ones below.
\<close>

definition isspace :: "nat \<Rightarrow> bool" where
  "isspace c =
     (c \<in> set [9, 10, 11, 12, 13, 28, 29, 30, 31, 32, 133, 160, 5760,
                8232, 8233, 8239, 8287, 12288]
      \<or> (8192 \<le> c \<and> c \<le> 8202))"

definition strip :: "pystr \<Rightarrow> pystr" where
  "strip s = rev (dropWhile isspace (rev (dropWhile isspace s)))"

text \<open>
  Exceptions are values: the class name and \<open>str(e)\<close>. Only instances of
  \<open>Exception\<close> are modelled, which is what \<open>except Exception\<close> catches.
\<close>

datatype exn = Exception (exn_class: string) (exn_str: pystr)

text \<open>
  The values \<open>json.loads\<close> produces. A float is kept as mantissa and binary exponent
  (or infinity, or NaN): only its truth value matters here. A dict is the list of its
  items, keys distinct.
\<close>

datatype pyfloat = Finite int int | Infinite bool | NaN

datatype pyval =
    PNone
  | PBool bool
  | PInt int
  | PFloat pyfloat
  | PStr pystr
  | PList "pyval list"
  | PDict "(pystr \<times> pyval) list"

fun truthy :: "pyval \<Rightarrow> bool" where
  "truthy PNone = False"
| "truthy (PBool b) = b"
| "truthy (PInt i) = (i \<noteq> 0)"
| "truthy (PFloat (Finite m e)) = (m \<noteq> 0)"
| "truthy (PFloat (Infinite s)) = True"
| "truthy (PFloat NaN) = True"
| "truthy (PStr s) = (s \<noteq> [])"
| "truthy (PList xs) = (xs \<noteq> [])"
| "truthy (PDict kvs) = (kvs \<noteq> [])"

text \<open>\<open>a or b\<close>: \<open>a\<close> when it is truthy, else \<open>b\<close>.\<close>

definition py_or :: "pyval \<Rightarrow> pyval \<Rightarrow> pyval" where
  "py_or a b = (if truthy a then a else b)"

fun type_name :: "pyval \<Rightarrow> string" where
  "type_name PNone = ''NoneType''"
| "type_name (PBool b) = ''bool''"
| "type_name (PInt i) = ''int''"
| "type_name (PFloat f) = ''float''"
| "type_name (PStr s) = ''str''"
| "type_name (PList xs) = ''list''"
| "type_name (PDict kvs) = ''dict''"

definition AttributeError :: "string \<Rightarrow> string \<Rightarrow> exn" where
  "AttributeError ty attr =
     Exception ''AttributeError''
       ([39] @ ascii ty @ [39] @ ascii '' object has no attribute '' @ [39] @ ascii attr @ [39])"

definition IndexError :: exn where
  "IndexError = Exception ''IndexError'' (ascii ''list index out of range'')"

text \<open>\<open>v.get(k)\<close>: a dict answers (None for a missing key); no other JSON value has \<open>get\<close>.\<close>

fun py_get :: "pyval \<Rightarrow> pystr \<Rightarrow> exn + pyval" where
  "py_get (PDict kvs) k = Inr (case map_of kvs k of None \<Rightarrow> PNone | Some v \<Rightarrow> v)"
| "py_get v k = Inl (AttributeError (type_name v) ''get'')"

text \<open>\<open>v.strip()\<close>: only a str has it.\<close>

fun py_strip :: "pyval \<Rightarrow> exn + pystr" where
  "py_strip (PStr s) = Inr (strip s)"
| "py_strip v = Inl (AttributeError (type_name v) ''strip'')"

text \<open>
  The credential is a str or None: \<open>getattr(settings, "OPENAI_API_KEY", None)\<close> and
  \<open>os.getenv("OPENAI_API_KEY")\<close>.
\<close>

definition str_truthy :: "pystr option \<Rightarrow> bool" where
  "str_truthy k = (case k of None \<Rightarrow> False | Some s \<Rightarrow> s \<noteq> [])"

definition str_or :: "pystr option \<Rightarrow> pystr option \<Rightarrow> pystr option" where
  "str_or a b = (if str_truthy a then a else b)"

text \<open>\<open>k or ""\<close>\<close>

definition str_or_empty :: "pystr option \<Rightarrow> pystr" where
  "str_or_empty k = (case k of None \<Rightarrow> [] | Some s \<Rightarrow> s)"

section \<open>The process state and the outside world\<close>

text \<open>
  A client handle is opaque, and truthy as every plain Python object is. The remote
  completion request carries the keyword arguments of the call in \<open>_llm_reply\<close>; the
  temperature 0.7 is kept as the decimal (7, 1), the messages as (role, content) pairs.
  A completion is the list of its choices, each the \<open>message.content\<close> (a str or None).
\<close>

datatype client = ClientHandle nat

record chat_request =
  req_model :: pystr
  req_temperature :: "int \<times> nat"
  req_max_tokens :: nat
  req_messages :: "(pystr \<times> pystr) list"
  req_timeout :: nat

datatype completion = Completion (choices: "pystr option list")

datatype level = INFO | WARNING | ERROR

text \<open>
  What the gateway does to the outside: a log line, the construction \<open>OpenAI(api_key=key)\<close>,
  the remote call \<open>client.chat.completions.create(...)\<close>.
\<close>

datatype event =
    Logged level pystr
  | OpenAI_called pystr
  | Create_called client chat_request

text \<open>
  The module global \<open>_client_cache\<close>: the sentinel (not built yet), or the cached result
  (a client, or None after a failure).
\<close>

datatype cache = SENTINEL | Cached "client option"

record world =
  client_cache :: cache
  log_trace :: "event list"

definition initial_world :: world where
  "initial_world = \<lparr>client_cache = SENTINEL, log_trace = []\<rparr>"

text \<open>
  What the code reads from outside itself, given afresh at every call since it may change
  while the process runs: the SDK class \<open>OpenAI\<close> (None when the import failed) as the
  outcome of constructing a client from a key, the two places of the credential,
  \<open>settings.DEBUG\<close>, the remote completion service, and
  \<open>json.loads(request.body.decode("utf-8"))\<close> as a function of the body's bytes
  (\<open>Inl\<close> when decoding or parsing raises).
\<close>

record env =
  OpenAI :: "(pystr \<Rightarrow> exn + client) option"
  settings_OPENAI_API_KEY :: "pystr option"
  os_getenv_OPENAI_API_KEY :: "pystr option"
  settings_DEBUG :: "bool option"
  chat_completions_create :: "client \<Rightarrow> chat_request \<Rightarrow> exn + completion"
  json_loads :: "string \<Rightarrow> exn + pyval"

text \<open>\<open>getattr(settings, "DEBUG", False)\<close>\<close>

definition getattr_DEBUG :: "env \<Rightarrow> bool" where
  "getattr_DEBUG e = (case settings_DEBUG e of None \<Rightarrow> False | Some b \<Rightarrow> b)"

definition logger :: "level \<Rightarrow> pystr \<Rightarrow> world \<Rightarrow> world" where
  "logger lv msg w = w\<lparr>log_trace := log_trace w @ [Logged lv msg]\<rparr>"

record request =
  http_method :: pystr
  body :: string

datatype http_response =
    JsonResponse "(pystr \<times> pyval) list"
  | HttpResponseBadRequest pystr
  | HttpResponseNotAllowed

fun status_code :: "http_response \<Rightarrow> nat" where
  "status_code (JsonResponse d) = 200"
| "status_code (HttpResponseBadRequest b) = 400"
| "status_code HttpResponseNotAllowed = 405"

section \<open>The gateway\<close>

subsection \<open>\<open>_mask\<close>\<close>

definition mask_key :: "pystr \<Rightarrow> pystr" where
  "mask_key s =
     (if s \<noteq> [] \<and> length s > 8 then take 4 s @ [8230] @ drop (length s - 4) s
      else (if s \<noteq> [] then ascii ''(set)'' else ascii ''(missing)''))"

subsection \<open>\<open>_get_openai_client\<close>\<close>

text \<open>Line 57: the settings value if truthy, else the environment variable.\<close>

definition openai_api_key :: "env \<Rightarrow> pystr option" where
  "openai_api_key e = str_or (settings_OPENAI_API_KEY e) (os_getenv_OPENAI_API_KEY e)"

text \<open>
  The cached result when there is one. Otherwise, once: no SDK, or no key (\<open>not key\<close>),
  gives None; else the client is constructed inside \<open>try\<close>, and a raised exception
  gives None as well. Past the \<open>not key\<close> test the key is a non-empty str, read by
  \<open>str_or_empty\<close>. No path raises; the result is still a sum, as for every function here.
\<close>

definition get_openai_client :: "env \<Rightarrow> world \<Rightarrow> (exn + client option) \<times> world" where
  "get_openai_client e w =
     (case client_cache w of
        Cached c \<Rightarrow> (Inr c, w)
      | SENTINEL \<Rightarrow>
          (case OpenAI e of
             None \<Rightarrow>
               (Inr None,
                (logger WARNING (ascii ''OpenAI SDK not installed in this environment.'') w)
                  \<lparr>client_cache := Cached None\<rparr>)
           | Some ctor \<Rightarrow>
               (let key = openai_api_key e in
                if \<not> str_truthy key then
                  (Inr None,
                   (logger WARNING
                      (ascii ''OPENAI_API_KEY not found (settings and env both empty).'') w)
                     \<lparr>client_cache := Cached None\<rparr>)
                else
                  (let k = str_or_empty key;
                       w1 = w\<lparr>log_trace := log_trace w @ [OpenAI_called k]\<rparr>
                   in case ctor k of
                        Inr c \<Rightarrow>
                          (Inr (Some c),
                           logger INFO
                             (ascii ''OpenAI client initialized (key='' @ mask_key k @ ascii '').'')
                             (w1\<lparr>client_cache := Cached (Some c)\<rparr>))
                      | Inl ex \<Rightarrow>
                          (Inr None,
                           (logger ERROR
                              (ascii ''Failed to create OpenAI client: '' @ exn_str ex) w1)
                             \<lparr>client_cache := Cached None\<rparr>)))))"

subsection \<open>The system prompt and the fixed replies\<close>

definition SYSTEM_PROMPT :: pystr where
  "SYSTEM_PROMPT = concat
    [[10],
     ascii ''You are Liora '' @ [8212] @ ascii '' a warm, capable, general-purpose AI companion for Liora'' @ [232] @ ascii '' Co.'' @ [10],
     ascii ''Be kind, witty, concise, and actually useful. Match the user'' @ [8217] @ ascii ''s tone.'' @ [10],
     ascii ''Use plain language. If feelings show up, acknowledge briefly, then problem-solve.'' @ [10],
     ascii ''Ask at most one short follow-up when it truly helps.'' @ [10],
     [10],
     ascii ''Core behavior'' @ [10],
     ascii ''- Be pragmatic and specific. Offer examples, checklists, and step-wise plans.'' @ [10],
     ascii ''- If you don'' @ [8217] @ ascii ''t know, say so and suggest a next step (search, small test, expert).'' @ [10],
     ascii ''- Safety: provide general info only (no medical/legal/financial guarantees). Encourage consulting a professional when appropriate.'' @ [10],
     ascii ''- Avoid hallucinated specifics; prefer plain statements, small ranges, or '' @ [8220] @ ascii ''it depends + how to decide'' @ [8221] @ ascii ''.'' @ [10],
     [10],
     ascii ''About Liora'' @ [232] @ ascii '' Co. (facts you can use)'' @ [10],
     ascii ''- What we do: strategy-first social media + content, light automation/CRM, dashboards, and funnels/landing pages.'' @ [10],
     ascii ''- Outcomes: typical engagement lift within ~1'' @ [8211] @ ascii ''2 months; clearer pipeline/ROI within ~3'' @ [8211] @ ascii ''6 months (with consistent shipping).'' @ [10],
     ascii ''- Ownership: all delivered assets, sites, and customized AI tools belong to the client.'' @ [10],
     ascii ''- Cadence: weekly shipping and iteration; monthly retainers; upgrade or customize anytime.'' @ [10],
     ascii ''- Channels & tools we'' @ [8217] @ ascii ''re fluent with: Instagram, TikTok, YouTube; Meta Ads, Google Ads; Figma/Notion; Shopify/Stripe; HubSpot; Klaviyo.'' @ [10],
     ascii ''- Tone/brand: clear, friendly, no fluff; strategy first, creative with soul.'' @ [10],
     [10],
     ascii ''Service tiers (typical inclusions; scopes can be tailored)'' @ [10],
     ascii ''1) IGNITE '' @ [8212] @ ascii '' '' @ [8220] @ ascii ''Smart Social Foundations'' @ [8221] @ ascii '' (approx. PHP 75,000 / month)'' @ [10],
     ascii ''   - ~20 posts '' @ [8226] @ ascii '' 25 stories '' @ [8226] @ ascii '' 3 reels'' @ [10],
     ascii ''   - AI-assisted captions/hashtags'' @ [10],
     ascii ''   - Content calendar + auto-scheduling'' @ [10],
     ascii ''   - Basic landing/portfolio + hosting'' @ [10],
     ascii ''   - Monthly analytics report'' @ [10],
     ascii ''   - Best for startups'' @ [10],
     [10],
     ascii ''2) SYNC '' @ [8212] @ ascii '' '' @ [8220] @ ascii ''Social + Web Alignment'' @ [8221] @ ascii '' (approx. PHP 95,000 / month)'' @ [10],
     ascii ''   - ~30 posts '' @ [8226] @ ascii '' 35 stories '' @ [8226] @ ascii '' 6 reels'' @ [10],
     ascii ''   - Campaign strategy & funnel planning'' @ [10],
     ascii ''   - Landing page optimization + CRM hookups'' @ [10],
     ascii ''   - AI trend suggestions + conversion copy'' @ [10],
     ascii ''   - Lead & engagement dashboard'' @ [10],
     ascii ''   - Lead-gen ready'' @ [10],
     [10],
     ascii ''3) VISION '' @ [8212] @ ascii '' '' @ [8220] @ ascii ''AI-Enhanced Growth Engine'' @ [8221] @ ascii '' (approx. PHP 120,000 / month, min. 3-month plan)'' @ [10],
     ascii ''   - ~25 posts '' @ [8226] @ ascii '' 25 stories '' @ [8226] @ ascii '' 8 reels'' @ [10],
     ascii ''   - Predictive campaign builder'' @ [10],
     ascii ''   - Social listening & competitor analysis'' @ [10],
     ascii ''   - Bi-weekly analytics & retargeting'' @ [10],
     ascii ''   - Advanced dashboards & automation'' @ [10],
     [10],
     ascii ''4) AUTHORITY '' @ [8212] @ ascii '' '' @ [8220] @ ascii ''Omnipresence + Automation'' @ [8221] @ ascii '' (approx. PHP 150,000 / month)'' @ [10],
     ascii ''   - Thought leadership + multi-channel presence'' @ [10],
     ascii ''   - Heavier automation + repurposing'' @ [10],
     [10],
     ascii ''5) ASCEND '' @ [8212] @ ascii '' '' @ [8220] @ ascii ''Full Growth Ecosystem'' @ [8221] @ ascii '' (PHP 200,000+ / month)'' @ [10],
     ascii ''   - Enterprise-style scope, >50 posts across platforms, multi-funnel orchestration'' @ [10],
     [10],
     ascii ''Process (how we work)'' @ [10],
     ascii ''1) Discover & Audit '' @ [8212] @ ascii '' kickoff, goals, audience, baseline.'' @ [10],
     ascii ''2) Strategy '' @ [8212] @ ascii '' messaging, pillars, campaign roadmap.'' @ [10],
     ascii ''3) Setup '' @ [8212] @ ascii '' stack, scheduler, CRM, pixels, analytics.'' @ [10],
     ascii ''4) Ship '' @ [8212] @ ascii '' weekly content (AI-assisted captions, best-time posting), light automations.'' @ [10],
     ascii ''5) Review & Scale '' @ [8212] @ ascii '' dashboards, learnings, iterate, retarget, expand winners.'' @ [10],
     [10],
     ascii ''FAQs (quick answers)'' @ [10],
     ascii ''- Do I need a website? Not required. We can ship a starter landing page in-package.'' @ [10],
     ascii ''- How does AI help? Caption drafts, best-time posting, light automations, predictive prompts, time savings.'' @ [10],
     ascii ''- Social-only? Yes'' @ [8212] @ ascii ''start with foundations; upgrade to funnels/automation later.'' @ [10],
     ascii ''- When will results show? 1'' @ [8211] @ ascii ''2 months for engagement lift; 3'' @ [8211] @ ascii ''6 months for clearer ROI signals (depends on baseline, budget, and velocity).'' @ [10],
     ascii ''- Who owns what? You do. We manage and optimize on your behalf.'' @ [10],
     [10],
     ascii ''Working style'' @ [10],
     ascii ''- Keep answers crisp; use short lists, bold keywords sparingly, and avoid jargon.'' @ [10],
     ascii ''- Default to practical frameworks (e.g., '' @ [8220] @ ascii ''3-step test plan'' @ [8221] @ ascii '', '' @ [8220] @ ascii ''1-week sprint plan'' @ [8221] @ ascii '', '' @ [8220] @ ascii ''hook-body-CTA'' @ [8221] @ ascii '').'' @ [10],
     ascii ''- Prefer examples tailored to the user'' @ [8217] @ ascii ''s niche when they'' @ [8217] @ ascii ''ve said it; otherwise suggest 2'' @ [8211] @ ascii ''3 niches as placeholders.'' @ [10],
     [10],
     ascii ''If the user asks about Liora'' @ [232] @ ascii '' services'' @ [10],
     ascii ''- Offer to map them to a tier or design a custom scope.'' @ [10],
     ascii ''- Suggest a 20-min discovery call for fit/brief + draft plan (typical response ~24h).'' @ [10],
     ascii ''- Contact: hello'' @ [64] @ ascii ''liorae.co (or direct the user to the '' @ [8220] @ ascii ''Contact'' @ [8221] @ ascii '' section if present).'' @ [10],
     [10],
     ascii ''Formatting & limits'' @ [10],
     ascii ''- Use plain text or light Markdown. Avoid heavy decoration or emojis unless the user uses them.'' @ [10],
     ascii ''- One follow-up question max, only if it significantly improves the answer.'' @ [10],
     ascii ''- If a price/timeline/spec isn'' @ [8217] @ ascii ''t certain, state assumptions.'' @ [10],
     [10],
     ascii ''Refusals & sensitive content'' @ [10],
     ascii ''- Decline unsafe/illegal requests; offer a safe alternative.'' @ [10],
     ascii ''- Never claim professional, guaranteed outcomes; emphasize guidance and experiments.'' @ [10],
     [10],
     ascii ''Short self-description for context replies'' @ [10],
     ascii ''- '' @ [8220] @ ascii ''I'' @ [8217] @ ascii ''m Liora, your friendly AI from Liora'' @ [232] @ ascii '' Co.'' @ [8212] @ ascii ''strategy-first social, content, and light automation that turns presence into pipeline.'' @ [8221] @ [10],
     [10],
     []]"

definition OFFLINE_REPLY :: pystr where
  "OFFLINE_REPLY =
     ascii ''Got it. I don'' @ [8217] @ ascii ''t have my full AI brain connected yet. ''
     @ ascii ''Share your main channel (IG/TikTok/LinkedIn), audience, and desired outcome, ''
     @ ascii ''and I'' @ [8217] @ ascii ''ll sketch a quick plan.''"

definition BLANKED_REPLY :: pystr where
  "BLANKED_REPLY =
     ascii ''I blanked for a sec'' @ [8212] @ ascii ''mind asking that one more time?''"

definition APOLOGY_REPLY :: pystr where
  "APOLOGY_REPLY =
     ascii ''I hit a snag reaching my brain. ''
     @ ascii ''Want to try again, or tell me the short version and I'' @ [8217] @ ascii ''ll help?''"

definition NUDGE_REPLY :: pystr where
  "NUDGE_REPLY = ascii ''What'' @ [8217] @ ascii ''s on your mind?''"

subsection \<open>\<open>_llm_reply\<close>\<close>

definition completion_request :: "pystr \<Rightarrow> chat_request" where
  "completion_request user_msg =
     \<lparr>req_model = ascii ''gpt-4o-mini'',
      req_temperature = (7, 1),
      req_max_tokens = 600,
      req_messages = [(ascii ''system'', SYSTEM_PROMPT), (ascii ''user'', user_msg)],
      req_timeout = 30\<rparr>"

text \<open>
  The body of the \<open>try\<close>: the remote call, \<open>choices[0]\<close> (IndexError on an empty list),
  \<open>(content or "").strip()\<close>, and the recovery line for an empty reply.
\<close>

definition llm_try :: "env \<Rightarrow> client \<Rightarrow> pystr \<Rightarrow> world \<Rightarrow> (exn + pystr) \<times> world" where
  "llm_try e c user_msg w =
     (let rq = completion_request user_msg;
          w1 = w\<lparr>log_trace := log_trace w @ [Create_called c rq]\<rparr>
      in case chat_completions_create e c rq of
           Inl ex \<Rightarrow> (Inl ex, w1)
         | Inr completion \<Rightarrow>
             (case choices completion of
                [] \<Rightarrow> (Inl IndexError, w1)
              | content # rest \<Rightarrow>
                  (let reply = strip (str_or_empty content) in
                   (Inr (if reply \<noteq> [] then reply else BLANKED_REPLY), w1))))"

definition llm_reply :: "env \<Rightarrow> pystr \<Rightarrow> world \<Rightarrow> (exn + pystr) \<times> world" where
  "llm_reply e user_msg w =
     (case get_openai_client e w of
        (Inl ex, w1) \<Rightarrow> (Inl ex, w1)
      | (Inr None, w1) \<Rightarrow> (Inr OFFLINE_REPLY, w1)
      | (Inr (Some c), w1) \<Rightarrow>
          (case llm_try e c user_msg w1 of
             (Inr reply, w2) \<Rightarrow> (Inr reply, w2)
           | (Inl ex, w2) \<Rightarrow>
               (let w3 = logger ERROR (ascii ''OpenAI call failed'') w2 in
                if getattr_DEBUG e then
                  (Inr (ascii ''(DEBUG) OpenAI error: '' @ exn_str ex), w3)
                else (Inr APOLOGY_REPLY, w3))))"

subsection \<open>\<open>chatbot_response\<close> and \<open>chat_health\<close>\<close>

text \<open>
  \<open>require_POST\<close> answers 405 to any other method. A body that does not decode or parse
  gives 400. \<open>data.get("message")\<close>, \<open>or ""\<close> and \<open>.strip()\<close> stand outside any
  \<open>try\<close>: what they raise leaves the view (\<open>Inl\<close>).
\<close>

definition chatbot_response :: "env \<Rightarrow> request \<Rightarrow> world \<Rightarrow> (exn + http_response) \<times> world" where
  "chatbot_response e request w =
     (if http_method request \<noteq> ascii ''POST'' then (Inr HttpResponseNotAllowed, w)
      else
        case json_loads e (body request) of
          Inl ex \<Rightarrow> (Inr (HttpResponseBadRequest (ascii ''Invalid JSON'')), w)
        | Inr data \<Rightarrow>
            (case py_get data (ascii ''message'') of
               Inl ex \<Rightarrow> (Inl ex, w)
             | Inr v \<Rightarrow>
                 (case py_strip (py_or v (PStr [])) of
                    Inl ex \<Rightarrow> (Inl ex, w)
                  | Inr user_msg \<Rightarrow>
                      if user_msg = [] then
                        (Inr (JsonResponse [(ascii ''reply'', PStr NUDGE_REPLY)]), w)
                      else
                        (case llm_reply e user_msg w of
                           (Inl ex, w1) \<Rightarrow> (Inl ex, w1)
                         | (Inr reply, w1) \<Rightarrow>
                             (Inr (JsonResponse [(ascii ''reply'', PStr reply)]), w1)))))"

definition chat_health :: "env \<Rightarrow> request \<Rightarrow> world \<Rightarrow> (exn + http_response) \<times> world" where
  "chat_health e request w =
     (let key_settings = settings_OPENAI_API_KEY e;
          key_env = os_getenv_OPENAI_API_KEY e
      in case get_openai_client e w of
           (Inl ex, w1) \<Rightarrow> (Inl ex, w1)
         | (Inr c, w1) \<Rightarrow>
             (Inr (JsonResponse
                [(ascii ''sdk_installed'', PBool (OpenAI e \<noteq> None)),
                 (ascii ''has_key_in_settings'', PBool (str_truthy key_settings)),
                 (ascii ''has_key_in_env'', PBool (str_truthy key_env)),
                 (ascii ''key_seen'', PStr (mask_key (str_or_empty (str_or key_settings key_env)))),
                 (ascii ''client_initialized'', PBool (c \<noteq> None)),
                 (ascii ''debug'', PBool (getattr_DEBUG e))]),
              w1))"

subsection \<open>Sequences of calls, and what a trace holds\<close>

text \<open>
  Calls of the accessor one after the other in one process, each under the environment
  of its moment; the results in order, and the final state.
\<close>

fun get_openai_client_calls :: "env list \<Rightarrow> world \<Rightarrow> (exn + client option) list \<times> world" where
  "get_openai_client_calls [] w = ([], w)"
| "get_openai_client_calls (e # es) w =
     (case get_openai_client e w of
        (r, w1) \<Rightarrow> (case get_openai_client_calls es w1 of (rs, w2) \<Rightarrow> (r # rs, w2)))"

fun is_construction :: "event \<Rightarrow> bool" where
  "is_construction (OpenAI_called k) = True"
| "is_construction (Logged lv m) = False"
| "is_construction (Create_called c rq) = False"

fun is_remote_call :: "event \<Rightarrow> bool" where
  "is_remote_call (Create_called c rq) = True"
| "is_remote_call (Logged lv m) = False"
| "is_remote_call (OpenAI_called k) = False"

definition constructions :: "world \<Rightarrow> event list" where
  "constructions w = filter is_construction (log_trace w)"

definition remote_calls :: "world \<Rightarrow> event list" where
  "remote_calls w = filter is_remote_call (log_trace w)"

section \<open>Concrete scenarios\<close>

text \<open>
  Environments on which the theorems below are exercised. \<open>loads_table\<close> gives
  \<open>json.loads\<close> on the few bodies used; \<open>echo_service\<close> is a completion service that
  answers with the user message in brackets, \<open>failing_service\<close> one that times out.
\<close>

definition loads_table :: "string \<Rightarrow> exn + pyval" where
  "loads_table b =
     (if b = ''[]'' then Inr (PList [])
      else if b = ''{}'' then Inr (PDict [])
      else if b = ''{\"message\": 5}'' then Inr (PDict [(ascii ''message'', PInt 5)])
      else if b = ''{\"message\": null}'' then Inr (PDict [(ascii ''message'', PNone)])
      else if b = ''{\"message\": false}'' then Inr (PDict [(ascii ''message'', PBool False)])
      else if b = ''{\"message\": \"\"}'' then Inr (PDict [(ascii ''message'', PStr [])])
      else if b = ''{\"message\": \"   \"}'' then Inr (PDict [(ascii ''message'', PStr (ascii ''   ''))])
      else if b = ''{\"message\": \"hello\"}'' then Inr (PDict [(ascii ''message'', PStr (ascii ''hello''))])
      else if b = ''{\"message\": \"  hello  \"}''
        then Inr (PDict [(ascii ''message'', PStr (ascii ''  hello  ''))])
      else Inl (Exception ''JSONDecodeError'' (ascii ''Expecting value'')))"

definition echo_service :: "client \<Rightarrow> chat_request \<Rightarrow> exn + completion" where
  "echo_service c rq =
     (case rev (req_messages rq) of
        [] \<Rightarrow> Inl (Exception ''BadRequestError'' (ascii ''no messages''))
      | (role, content) # earlier \<Rightarrow> Inr (Completion [Some ([91] @ content @ [93])]))"

definition failing_service :: "client \<Rightarrow> chat_request \<Rightarrow> exn + completion" where
  "failing_service c rq = Inl (Exception ''APITimeoutError'' (ascii ''Request timed out.''))"

definition env_live :: env where
  "env_live =
     \<lparr>OpenAI = Some (\<lambda>key. Inr (ClientHandle 1)),
      settings_OPENAI_API_KEY = Some (ascii ''sk-settings-0001''),
      os_getenv_OPENAI_API_KEY = Some (ascii ''sk-environ-0002''),
      settings_DEBUG = Some False,
      chat_completions_create = echo_service,
      json_loads = loads_table\<rparr>"

definition env_unconfigured :: env where
  "env_unconfigured =
     env_live\<lparr>settings_OPENAI_API_KEY := Some [], os_getenv_OPENAI_API_KEY := None\<rparr>"

definition post :: "string \<Rightarrow> request" where
  "post b = \<lparr>http_method = ascii ''POST'', body = b\<rparr>"

section \<open>Properties\<close>

subsection \<open>Auxiliary facts\<close>

lemma dropWhile_idem: "dropWhile P (dropWhile P xs) = dropWhile P xs"
  by (induction xs) auto

lemma dropWhile_hd_id: "xs = [] \<or> \<not> P (hd xs) \<Longrightarrow> dropWhile P xs = xs"
  by (cases xs) auto

lemma strip_no_lead: "dropWhile isspace (strip s) = strip s"
proof -
  define t where "t = dropWhile isspace s"
  define u where "u = dropWhile isspace (rev t)"
  have su: "strip s = rev u" by (simp add: strip_def t_def u_def)
  have "rev t = takeWhile isspace (rev t) @ u" by (simp add: u_def)
  then have "t = rev u @ rev (takeWhile isspace (rev t))"
    by (metis rev_append rev_rev_ident)
  then have hd_eq: "u \<noteq> [] \<Longrightarrow> hd (rev u) = hd t \<and> t \<noteq> []"
    by (metis hd_append2 rev_is_Nil_conv append_is_Nil_conv)
  have "t \<noteq> [] \<Longrightarrow> \<not> isspace (hd t)"
    unfolding t_def by (rule hd_dropWhile)
  with hd_eq have "rev u = [] \<or> \<not> isspace (hd (rev u))" by auto
  then show ?thesis unfolding su by (rule dropWhile_hd_id)
qed

lemma strip_idem: "strip (strip s) = strip s"
proof -
  have "dropWhile isspace (rev (strip s)) = rev (strip s)"
    by (simp add: strip_def dropWhile_idem)
  then show ?thesis using strip_no_lead[of s] by (simp add: strip_def)
qed

lemma replies_nonempty:
  "OFFLINE_REPLY \<noteq> []" "BLANKED_REPLY \<noteq> []" "APOLOGY_REPLY \<noteq> []" "NUDGE_REPLY \<noteq> []"
  by (simp_all add: OFFLINE_REPLY_def BLANKED_REPLY_def APOLOGY_REPLY_def NUDGE_REPLY_def ascii_def)

lemma get_openai_client_cached:
  "client_cache w = Cached c \<Longrightarrow> get_openai_client e w = (Inr c, w)"
  by (simp add: get_openai_client_def)

lemma get_openai_client_result:
  "\<exists>c. fst (get_openai_client e w) = Inr c \<and> client_cache (snd (get_openai_client e w)) = Cached c"
  by (auto simp: get_openai_client_def logger_def Let_def split: cache.splits option.splits sum.splits)

lemma get_openai_client_constructions:
  "length (constructions (snd (get_openai_client e w))) \<le> Suc (length (constructions w))"
  by (auto simp: get_openai_client_def logger_def Let_def constructions_def
      split: cache.splits option.splits sum.splits)

lemma get_openai_client_remote_calls:
  "remote_calls (snd (get_openai_client e w)) = remote_calls w"
  by (auto simp: get_openai_client_def logger_def Let_def remote_calls_def
      split: cache.splits option.splits sum.splits)

lemma calls_cached:
  "client_cache w = Cached c \<Longrightarrow>
   get_openai_client_calls es w = (replicate (length es) (Inr c), w)"
  by (induction es) (simp_all add: get_openai_client_cached)

lemma first_result:
  "fst (get_openai_client e initial_world) =
     Inr (case OpenAI e of
            None \<Rightarrow> None
          | Some ctor \<Rightarrow>
              if str_truthy (openai_api_key e)
              then (case ctor (str_or_empty (openai_api_key e)) of Inr c \<Rightarrow> Some c | Inl ex \<Rightarrow> None)
              else None)"
  by (auto simp: get_openai_client_def initial_world_def Let_def split: option.splits sum.splits)

lemma llm_try_nonempty:
  "fst (llm_try e c user_msg w) = Inr r \<Longrightarrow> r \<noteq> []"
  using replies_nonempty(2)
  by (auto simp: llm_try_def Let_def split: sum.splits list.splits if_splits)

lemma llm_try_raises:
  "chat_completions_create e c (completion_request user_msg) = Inl ex \<Longrightarrow>
   llm_try e c user_msg w =
     (Inl ex, w\<lparr>log_trace := log_trace w @ [Create_called c (completion_request user_msg)]\<rparr>)"
  by (simp add: llm_try_def Let_def)

lemma unconfigured_no_client:
  "get_openai_client env_unconfigured initial_world =
     (Inr None,
      \<lparr>client_cache = Cached None,
       log_trace = [Logged WARNING
          (ascii ''OPENAI_API_KEY not found (settings and env both empty).'')]\<rparr>)"
  by (simp add: get_openai_client_def env_unconfigured_def env_live_def initial_world_def
      openai_api_key_def str_or_def str_truthy_def logger_def)

lemma live_client:
  "fst (get_openai_client (env_live\<lparr>chat_completions_create := f, settings_DEBUG := d\<rparr>) initial_world)
     = Inr (Some (ClientHandle 1))"
  by (simp add: get_openai_client_def env_live_def initial_world_def
      openai_api_key_def str_or_def str_truthy_def str_or_empty_def logger_def ascii_def Let_def)

lemma message_falsy_nudge:
  assumes "http_method rq = ascii ''POST''"
      and "json_loads e (body rq) = Inr (PDict d)"
      and "py_strip (py_or (case map_of d (ascii ''message'') of None \<Rightarrow> PNone | Some v \<Rightarrow> v) (PStr [])) = Inr []"
  shows "chatbot_response e rq w = (Inr (JsonResponse [(ascii ''reply'', PStr NUDGE_REPLY)]), w)"
  using assms by (simp add: chatbot_response_def)

lemma strip_Nil: "strip [] = []"
  by (simp add: strip_def)

lemma post_method: "http_method (post b) = ascii ''POST''" and post_body: "body (post b) = b"
  by (simp_all add: post_def)

lemma live_loads: "json_loads env_live = loads_table"
  by (simp add: env_live_def)

lemma mask_key_long:
  "8 < length s \<Longrightarrow> mask_key s = take 4 s @ [8230] @ drop (length s - 4) s"
  by (auto simp: mask_key_def)

lemma mask_key_long_length: "8 < length s \<Longrightarrow> length (mask_key s) = 9"
  by (simp add: mask_key_long)

lemma mask_key_nine:
  assumes "length s = 9"
  shows "(mask_key s = s) = (s ! 4 = 8230)"
proof -
  have s: "s = take 4 s @ [s ! 4] @ drop 5 s"
    using assms id_take_nth_drop[of 4 s] by simp
  have m: "mask_key s = take 4 s @ [8230] @ drop 5 s"
    using assms by (simp add: mask_key_long)
  show ?thesis
  proof
    assume "mask_key s = s"
    then have "take 4 s @ [8230] @ drop 5 s = take 4 s @ [s ! 4] @ drop 5 s"
      using m s by simp
    then show "s ! 4 = 8230" by simp
  next
    assume "s ! 4 = 8230"
    then show "mask_key s = s" using m s by simp
  qed
qed

lemma mask_key_self:
  assumes "8 < length s"
  shows "(mask_key s = s) = (length s = 9 \<and> s ! 4 = 8230)"
proof (cases "length s = 9")
  case True
  then show ?thesis using mask_key_nine[of s] by simp
next
  case False
  then have "length (mask_key s) \<noteq> length s"
    using assms mask_key_long_length[of s] by simp
  then have "mask_key s \<noteq> s" by auto
  with False show ?thesis by simp
qed

lemma chat_health_shape:
  "\<exists>c. fst (chat_health e rq w) =
     Inr (JsonResponse
        [(ascii ''sdk_installed'', PBool (OpenAI e \<noteq> None)),
         (ascii ''has_key_in_settings'', PBool (str_truthy (settings_OPENAI_API_KEY e))),
         (ascii ''has_key_in_env'', PBool (str_truthy (os_getenv_OPENAI_API_KEY e))),
         (ascii ''key_seen'', PStr (mask_key (str_or_empty (openai_api_key e)))),
         (ascii ''client_initialized'', PBool c),
         (ascii ''debug'', PBool (getattr_DEBUG e))])"
proof -
  obtain c where c: "fst (get_openai_client e w) = Inr c"
    using get_openai_client_result[of e w] by blast
  obtain w1 where g: "get_openai_client e w = (Inr c, w1)"
    using c by (cases "get_openai_client e w") simp
  show ?thesis
    using g by (simp add: chat_health_def openai_api_key_def Let_def)
qed

lemma llm_try_state:
  "snd (llm_try e c m w) = w\<lparr>log_trace := log_trace w @ [Create_called c (completion_request m)]\<rparr>"
  by (simp add: llm_try_def Let_def split: sum.splits list.splits)

lemma llm_reply_remote_calls:
  assumes "fst (get_openai_client e w) = Inr (Some c)"
  shows "remote_calls (snd (llm_reply e m w)) = remote_calls w @ [Create_called c (completion_request m)]"
proof -
  obtain w1 where g: "get_openai_client e w = (Inr (Some c), w1)"
    using assms by (cases "get_openai_client e w") simp
  have r1: "remote_calls w1 = remote_calls w"
    using get_openai_client_remote_calls[of e w] g by simp
  obtain x w2 where t: "llm_try e c m w1 = (x, w2)"
    by (cases "llm_try e c m w1")
  have w2: "w2 = w1\<lparr>log_trace := log_trace w1 @ [Create_called c (completion_request m)]\<rparr>"
    using llm_try_state[of e c m w1] t by simp
  have r2: "remote_calls w2 = remote_calls w @ [Create_called c (completion_request m)]"
    using r1 by (simp add: w2 remote_calls_def)
  have r3: "remote_calls (logger ERROR (ascii ''OpenAI call failed'') w2) = remote_calls w2"
    by (simp add: remote_calls_def logger_def)
  show ?thesis
    using g t r2 r3 by (cases x) (simp_all add: llm_reply_def Let_def)
qed

lemma live_client_plain:
  "fst (get_openai_client env_live initial_world) = Inr (Some (ClientHandle 1))"
  by (simp add: get_openai_client_def env_live_def initial_world_def
      openai_api_key_def str_or_def str_truthy_def str_or_empty_def logger_def ascii_def Let_def)

subsection \<open>The client cache\<close>

text \<open>
  C2. In one process, from the unbuilt cache: whatever the environments of the later
  calls are, every call of \<open>_get_openai_client\<close> returns what the first call returned,
  and the state after all the calls is the state after the first one (no further
  construction, no further log line). At most one construction has been attempted. The
  cached result is the built client when construction succeeded, and None when the SDK
  was missing, the credential was absent or empty, or construction raised.
\<close>

theorem client_built_at_most_once:
  "get_openai_client_calls (e # es) initial_world =
     (replicate (Suc (length es)) (fst (get_openai_client e initial_world)),
      snd (get_openai_client e initial_world))
   \<and> length (constructions (snd (get_openai_client e initial_world))) \<le> 1
   \<and> fst (get_openai_client e initial_world) =
       Inr (case OpenAI e of
              None \<Rightarrow> None
            | Some ctor \<Rightarrow>
                if str_truthy (openai_api_key e)
                then (case ctor (str_or_empty (openai_api_key e)) of
                        Inr c \<Rightarrow> Some c | Inl ex \<Rightarrow> None)
                else None)"
proof -
  obtain r w1 where rw: "get_openai_client e initial_world = (r, w1)"
    by (cases "get_openai_client e initial_world")
  obtain c where c: "r = Inr c" "client_cache w1 = Cached c"
    using get_openai_client_result[of e initial_world] rw by auto
  have seq: "get_openai_client_calls es w1 = (replicate (length es) r, w1)"
    using calls_cached[OF c(2)] c(1) by simp
  have cnt: "length (constructions w1) \<le> 1"
    using get_openai_client_constructions[of e initial_world] rw
    by (simp add: constructions_def initial_world_def)
  show ?thesis using rw seq cnt first_result[of e] by simp
qed

text \<open>
  C9. With the SDK present and the cache unbuilt: when the application setting is present
  and non-empty, it is the key the client is constructed with; otherwise, when the
  environment variable is present and non-empty, that one is; and when both are absent
  or empty the accessor returns None normally, after one warning, without any
  construction.
\<close>

theorem credential_resolution:
  assumes "client_cache w = SENTINEL" and "OpenAI e = Some ctor"
  shows "(str_truthy (settings_OPENAI_API_KEY e) \<longrightarrow>
            (\<exists>k. settings_OPENAI_API_KEY e = Some k
               \<and> constructions (snd (get_openai_client e w)) = constructions w @ [OpenAI_called k]))
       \<and> (\<not> str_truthy (settings_OPENAI_API_KEY e) \<and> str_truthy (os_getenv_OPENAI_API_KEY e) \<longrightarrow>
            (\<exists>k. os_getenv_OPENAI_API_KEY e = Some k
               \<and> constructions (snd (get_openai_client e w)) = constructions w @ [OpenAI_called k]))
       \<and> (\<not> str_truthy (settings_OPENAI_API_KEY e) \<and> \<not> str_truthy (os_getenv_OPENAI_API_KEY e) \<longrightarrow>
            get_openai_client e w =
              (Inr None,
               \<lparr>client_cache = Cached None,
                log_trace = log_trace w @
                  [Logged WARNING
                     (ascii ''OPENAI_API_KEY not found (settings and env both empty).'')]\<rparr>))"
  using assms
  by (auto simp: get_openai_client_def openai_api_key_def str_or_def str_truthy_def
      str_or_empty_def logger_def Let_def constructions_def split: option.splits sum.splits)

theorem credential_resolution_witness:
  "constructions (snd (get_openai_client env_live initial_world))
     = [OpenAI_called (ascii ''sk-settings-0001'')]
   \<and> constructions (snd (get_openai_client
        (env_live\<lparr>settings_OPENAI_API_KEY := Some []\<rparr>) initial_world))
     = [OpenAI_called (ascii ''sk-environ-0002'')]
   \<and> fst (get_openai_client env_unconfigured initial_world) = Inr None"
proof -
  have c0: "client_cache initial_world = SENTINEL" and k0: "constructions initial_world = []"
    by (simp_all add: initial_world_def constructions_def)
  have o1: "OpenAI env_live = Some (\<lambda>key. Inr (ClientHandle 1))"
    by (simp add: env_live_def)
  have s1: "settings_OPENAI_API_KEY env_live = Some (ascii ''sk-settings-0001'')"
    and t1: "str_truthy (settings_OPENAI_API_KEY env_live)"
    by (simp_all add: env_live_def str_truthy_def ascii_def)
  have a: "constructions (snd (get_openai_client env_live initial_world))
             = [OpenAI_called (ascii ''sk-settings-0001'')]"
    using credential_resolution[OF c0 o1] s1 t1 k0 by auto
  let ?e2 = "env_live\<lparr>settings_OPENAI_API_KEY := Some []\<rparr>"
  have o2: "OpenAI ?e2 = Some (\<lambda>key. Inr (ClientHandle 1))"
    by (simp add: env_live_def)
  have s2: "os_getenv_OPENAI_API_KEY ?e2 = Some (ascii ''sk-environ-0002'')"
    and t2: "\<not> str_truthy (settings_OPENAI_API_KEY ?e2) \<and> str_truthy (os_getenv_OPENAI_API_KEY ?e2)"
    by (simp_all add: env_live_def str_truthy_def ascii_def)
  have b: "constructions (snd (get_openai_client ?e2 initial_world))
             = [OpenAI_called (ascii ''sk-environ-0002'')]"
    using credential_resolution[OF c0 o2] s2 t2 k0 by auto
  have o3: "OpenAI env_unconfigured = Some (\<lambda>key. Inr (ClientHandle 1))"
    by (simp add: env_unconfigured_def env_live_def)
  have t3: "\<not> str_truthy (settings_OPENAI_API_KEY env_unconfigured)
            \<and> \<not> str_truthy (os_getenv_OPENAI_API_KEY env_unconfigured)"
    by (simp add: env_unconfigured_def env_live_def str_truthy_def)
  have c: "fst (get_openai_client env_unconfigured initial_world) = Inr None"
    using credential_resolution[OF c0 o3] t3 by simp
  show ?thesis using a b c by blast
qed

subsection \<open>The reply resolver\<close>

text \<open>
  C3. For every message, every state of the client cache and every behaviour of the
  construction and of the remote call (a completion with any text, with no text, with no
  choice at all, or a raised exception), \<open>_llm_reply\<close> returns normally, and the string
  it returns is not empty.
\<close>

theorem llm_reply_returns_nonempty:
  "\<exists>r. fst (llm_reply e user_msg w) = Inr r \<and> r \<noteq> []"
proof -
  obtain c where c: "fst (get_openai_client e w) = Inr c"
    using get_openai_client_result[of e w] by blast
  obtain w1 where g: "get_openai_client e w = (Inr c, w1)"
    using c by (cases "get_openai_client e w") simp
  show ?thesis
  proof (cases c)
    case None
    with g show ?thesis by (simp add: llm_reply_def replies_nonempty)
  next
    case (Some cl)
    obtain t w2 where t: "llm_try e cl user_msg w1 = (t, w2)"
      by (cases "llm_try e cl user_msg w1")
    show ?thesis
    proof (cases t)
      case (Inl ex)
      with g Some t show ?thesis
        by (simp add: llm_reply_def Let_def replies_nonempty ascii_def)
    next
      case (Inr r)
      then have "r \<noteq> []" using llm_try_nonempty[of e cl user_msg w1 r] t by simp
      with g Some t Inr show ?thesis by (simp add: llm_reply_def)
    qed
  qed
qed

text \<open>
  C4. Whenever the client cache yields no client, \<open>_llm_reply\<close> returns the one fixed
  offline reply (the one asking for channel, audience and desired outcome) for every
  message, and the remote completion service has not been called: the state is the one
  the cache accessor left.
\<close>

theorem llm_reply_offline_fallback:
  assumes "fst (get_openai_client e w) = Inr None"
  shows "llm_reply e user_msg w = (Inr OFFLINE_REPLY, snd (get_openai_client e w))
       \<and> remote_calls (snd (llm_reply e user_msg w)) = remote_calls w"
proof -
  obtain w1 where g: "get_openai_client e w = (Inr None, w1)"
    using assms by (cases "get_openai_client e w") simp
  have "remote_calls w1 = remote_calls w"
    using get_openai_client_remote_calls[of e w] g by simp
  with g show ?thesis by (simp add: llm_reply_def)
qed

theorem llm_reply_offline_fallback_witness:
  "fst (get_openai_client env_unconfigured initial_world) = Inr None
   \<and> fst (llm_reply env_unconfigured (ascii ''hello'') initial_world) = Inr OFFLINE_REPLY
   \<and> remote_calls (snd (llm_reply env_unconfigured (ascii ''hello'') initial_world)) = []"
proof -
  have h: "fst (get_openai_client env_unconfigured initial_world) = Inr None"
    by (simp add: unconfigured_no_client)
  have r0: "remote_calls initial_world = []"
    by (simp add: remote_calls_def initial_world_def)
  note t = llm_reply_offline_fallback[OF h, of "ascii ''hello''"]
  have a: "fst (llm_reply env_unconfigured (ascii ''hello'') initial_world) = Inr OFFLINE_REPLY"
    using t by simp
  have b: "remote_calls (snd (llm_reply env_unconfigured (ascii ''hello'') initial_world)) = []"
    using t r0 by argo
  show ?thesis using h a b by blast
qed

text \<open>
  C5. When the cache yields a client and the remote completion call raises, \<open>_llm_reply\<close>
  returns the fixed apology when the debug flag is off, whatever the exception was, so
  that nothing of the error text is in it; when the flag is on it returns a text that
  ends with the error text \<open>str(e)\<close>.
\<close>

theorem llm_reply_remote_failure:
  assumes "fst (get_openai_client e w) = Inr (Some c)"
      and "chat_completions_create e c (completion_request user_msg) = Inl ex"
  shows "fst (llm_reply e user_msg w) =
           Inr (if getattr_DEBUG e then ascii ''(DEBUG) OpenAI error: '' @ exn_str ex
                else APOLOGY_REPLY)"
proof -
  obtain w1 where g: "get_openai_client e w = (Inr (Some c), w1)"
    using assms(1) by (cases "get_openai_client e w") simp
  show ?thesis
    using g llm_try_raises[OF assms(2), of w1] by (simp add: llm_reply_def Let_def)
qed

theorem llm_reply_remote_failure_witness:
  "fst (llm_reply (env_live\<lparr>chat_completions_create := failing_service, settings_DEBUG := Some False\<rparr>)
         (ascii ''hello'') initial_world) = Inr APOLOGY_REPLY
   \<and> fst (llm_reply (env_live\<lparr>chat_completions_create := failing_service, settings_DEBUG := Some True\<rparr>)
         (ascii ''hello'') initial_world)
       = Inr (ascii ''(DEBUG) OpenAI error: '' @ ascii ''Request timed out.'')"
proof -
  have f: "\<And>d. chat_completions_create
             (env_live\<lparr>chat_completions_create := failing_service, settings_DEBUG := d\<rparr>)
             (ClientHandle 1) (completion_request (ascii ''hello''))
           = Inl (Exception ''APITimeoutError'' (ascii ''Request timed out.''))"
    by (simp add: failing_service_def)
  show ?thesis
    using llm_reply_remote_failure[OF live_client f, of "Some False"]
          llm_reply_remote_failure[OF live_client f, of "Some True"]
    by (simp add: getattr_DEBUG_def)
qed

subsection \<open>The chat endpoint\<close>

text \<open>
  C6, as stated, fails on the text of the reply: the claim writes the nudge with the
  ASCII apostrophe U+0027, the source has the typographic apostrophe U+2019, so the body
  the claim gives is never returned.
\<close>

theorem nudge_text_counterexample:
  "json_loads env_live (body (post ''{\"message\": \"\"}'')) = Inr (PDict [(ascii ''message'', PStr [])])
   \<and> fst (chatbot_response env_live (post ''{\"message\": \"\"}'') initial_world)
       = Inr (JsonResponse [(ascii ''reply'', PStr (ascii ''What'' @ [8217] @ ascii ''s on your mind?''))])
   \<and> fst (chatbot_response env_live (post ''{\"message\": \"\"}'') initial_world)
       \<noteq> Inr (JsonResponse [(ascii ''reply'', PStr (ascii ''What'' @ [39] @ ascii ''s on your mind?''))])"
  by (simp add: chatbot_response_def live_loads post_body post_method loads_table_def py_or_def
      strip_Nil NUDGE_REPLY_def ascii_def)

text \<open>
  C6, amended. For every POST whose body parses to a JSON object with a \<open>message\<close>
  string that is empty once trimmed, \<open>chatbot_response\<close> answers 200 with exactly the
  object \<open>{reply: NUDGE_REPLY}\<close>, where the nudge is \<open>What\<close>, U+2019,
  \<open>s on your mind?\<close>, and the state is untouched: neither the reply resolver nor the
  remote completion service has been called.
\<close>

theorem empty_message_short_circuit:
  assumes "http_method rq = ascii ''POST''"
      and "json_loads e (body rq) = Inr (PDict d)"
      and "map_of d (ascii ''message'') = Some (PStr s)"
      and "strip s = []"
  shows "chatbot_response e rq w = (Inr (JsonResponse [(ascii ''reply'', PStr NUDGE_REPLY)]), w)
       \<and> status_code (JsonResponse [(ascii ''reply'', PStr NUDGE_REPLY)]) = 200
       \<and> NUDGE_REPLY = ascii ''What'' @ [8217] @ ascii ''s on your mind?''"
proof -
  have "py_strip (py_or (PStr s) (PStr [])) = Inr []"
    using assms(4) by (simp add: py_or_def strip_Nil)
  then have "chatbot_response e rq w = (Inr (JsonResponse [(ascii ''reply'', PStr NUDGE_REPLY)]), w)"
    using message_falsy_nudge[OF assms(1,2), of w] assms(3) by simp
  then show ?thesis by (simp add: NUDGE_REPLY_def)
qed

theorem empty_message_short_circuit_witness:
  "chatbot_response env_live (post ''{\"message\": \"   \"}'') initial_world
     = (Inr (JsonResponse [(ascii ''reply'', PStr NUDGE_REPLY)]), initial_world)
   \<and> chatbot_response env_live (post ''{\"message\": \"\"}'') initial_world
     = (Inr (JsonResponse [(ascii ''reply'', PStr NUDGE_REPLY)]), initial_world)"
proof -
  have l1: "json_loads env_live (body (post ''{\"message\": \"   \"}''))
              = Inr (PDict [(ascii ''message'', PStr (ascii ''   ''))])"
    by (simp add: live_loads post_body loads_table_def)
  have l2: "json_loads env_live (body (post ''{\"message\": \"\"}''))
              = Inr (PDict [(ascii ''message'', PStr [])])"
    by (simp add: live_loads post_body loads_table_def)
  have m1: "map_of [(ascii ''message'', PStr (ascii ''   ''))] (ascii ''message'') = Some (PStr (ascii ''   ''))"
    by simp
  have m2: "map_of [(ascii ''message'', PStr [])] (ascii ''message'') = Some (PStr [])"
    by simp
  have s1: "strip (ascii ''   '') = []"
    by (simp add: strip_def ascii_def isspace_def)
  show ?thesis
    using empty_message_short_circuit[OF post_method l1 m1 s1, of initial_world]
          empty_message_short_circuit[OF post_method l2 m2 strip_Nil, of initial_world]
    by simp
qed

text \<open>
  C10. For every POST whose body parses to a JSON object in which \<open>message\<close> is absent,
  null or false, \<open>chatbot_response\<close> gives the 200 nudge reply, the same response as
  for a request with the explicit empty string as message.
\<close>

theorem missing_null_false_message_is_empty:
  assumes "http_method rq = ascii ''POST''"
      and "json_loads e (body rq) = Inr (PDict d)"
      and "map_of d (ascii ''message'') = None \<or> map_of d (ascii ''message'') = Some PNone
           \<or> map_of d (ascii ''message'') = Some (PBool False)"
      and "http_method rq0 = ascii ''POST''"
      and "json_loads e (body rq0) = Inr (PDict d0)"
      and "map_of d0 (ascii ''message'') = Some (PStr [])"
  shows "chatbot_response e rq w = (Inr (JsonResponse [(ascii ''reply'', PStr NUDGE_REPLY)]), w)
       \<and> chatbot_response e rq w = chatbot_response e rq0 w"
proof -
  have "py_strip (py_or (case map_of d (ascii ''message'') of None \<Rightarrow> PNone | Some v \<Rightarrow> v) (PStr [])) = Inr []"
    using assms(3) by (auto simp: py_or_def strip_Nil)
  then have a: "chatbot_response e rq w = (Inr (JsonResponse [(ascii ''reply'', PStr NUDGE_REPLY)]), w)"
    by (rule message_falsy_nudge[OF assms(1,2)])
  have "py_strip (py_or (case map_of d0 (ascii ''message'') of None \<Rightarrow> PNone | Some v \<Rightarrow> v) (PStr [])) = Inr []"
    using assms(6) by (simp add: py_or_def strip_Nil)
  then have b: "chatbot_response e rq0 w = (Inr (JsonResponse [(ascii ''reply'', PStr NUDGE_REPLY)]), w)"
    by (rule message_falsy_nudge[OF assms(4,5)])
  show ?thesis using a b by simp
qed

theorem missing_null_false_message_is_empty_witness:
  "chatbot_response env_live (post ''{}'') initial_world
     = (Inr (JsonResponse [(ascii ''reply'', PStr NUDGE_REPLY)]), initial_world)
   \<and> chatbot_response env_live (post ''{}'') initial_world
     = chatbot_response env_live (post ''{\"message\": \"\"}'') initial_world
   \<and> chatbot_response env_live (post ''{\"message\": null}'') initial_world
     = chatbot_response env_live (post ''{\"message\": \"\"}'') initial_world
   \<and> chatbot_response env_live (post ''{\"message\": false}'') initial_world
     = chatbot_response env_live (post ''{\"message\": \"\"}'') initial_world"
proof -
  have l0: "json_loads env_live (body (post ''{\"message\": \"\"}''))
              = Inr (PDict [(ascii ''message'', PStr [])])"
    by (simp add: live_loads post_body loads_table_def)
  have m0: "map_of [(ascii ''message'', PStr [])] (ascii ''message'') = Some (PStr [])"
    by simp
  have l1: "json_loads env_live (body (post ''{}'')) = Inr (PDict [])"
    by (simp add: live_loads post_body loads_table_def)
  have m1: "map_of [] (ascii ''message'') = None \<or> map_of [] (ascii ''message'') = Some PNone
            \<or> map_of [] (ascii ''message'') = Some (PBool False)"
    by simp
  have l2: "json_loads env_live (body (post ''{\"message\": null}''))
              = Inr (PDict [(ascii ''message'', PNone)])"
    by (simp add: live_loads post_body loads_table_def)
  have m2: "map_of [(ascii ''message'', PNone)] (ascii ''message'') = None
            \<or> map_of [(ascii ''message'', PNone)] (ascii ''message'') = Some PNone
            \<or> map_of [(ascii ''message'', PNone)] (ascii ''message'') = Some (PBool False)"
    by simp
  have l3: "json_loads env_live (body (post ''{\"message\": false}''))
              = Inr (PDict [(ascii ''message'', PBool False)])"
    by (simp add: live_loads post_body loads_table_def)
  have m3: "map_of [(ascii ''message'', PBool False)] (ascii ''message'') = None
            \<or> map_of [(ascii ''message'', PBool False)] (ascii ''message'') = Some PNone
            \<or> map_of [(ascii ''message'', PBool False)] (ascii ''message'') = Some (PBool False)"
    by simp
  show ?thesis
    using missing_null_false_message_is_empty[OF post_method l1 m1 post_method l0 m0, of initial_world]
          missing_null_false_message_is_empty[OF post_method l2 m2 post_method l0 m0, of initial_world]
          missing_null_false_message_is_empty[OF post_method l3 m3 post_method l0 m0, of initial_world]
    by argo
qed

text \<open>
  C7, as stated, fails: \<open>_llm_reply\<close> does not trim. It sends its argument as it is, so
  a service that answers with the user message in brackets tells \<open>"  hello  "\<close> from
  \<open>"hello"\<close>.
\<close>

theorem llm_reply_trim_counterexample:
  "strip (ascii ''  hello  '') = ascii ''hello''
   \<and> fst (llm_reply env_live (ascii ''  hello  '') initial_world) = Inr (ascii ''[  hello  ]'')
   \<and> fst (llm_reply env_live (ascii ''hello'') initial_world) = Inr (ascii ''[hello]'')
   \<and> fst (llm_reply env_live (ascii ''  hello  '') initial_world)
       \<noteq> fst (llm_reply env_live (ascii ''hello'') initial_world)"
proof -
  have g: "\<exists>w1. get_openai_client env_live initial_world = (Inr (Some (ClientHandle 1)), w1)"
    by (simp add: get_openai_client_def env_live_def initial_world_def
      openai_api_key_def str_or_def str_truthy_def str_or_empty_def logger_def ascii_def Let_def)
  have t: "\<And>m w. fst (llm_try env_live (ClientHandle 1) m w)
              = Inr (if strip ([91] @ m @ [93]) \<noteq> [] then strip ([91] @ m @ [93]) else BLANKED_REPLY)"
    by (simp add: llm_try_def env_live_def echo_service_def completion_request_def Let_def
        str_or_empty_def)
  have r: "\<And>m. fst (llm_reply env_live m initial_world)
              = Inr (if strip ([91] @ m @ [93]) \<noteq> [] then strip ([91] @ m @ [93]) else BLANKED_REPLY)"
  proof -
    fix m
    obtain w1 where w1: "get_openai_client env_live initial_world = (Inr (Some (ClientHandle 1)), w1)"
      using g by blast
    obtain x w2 where x: "llm_try env_live (ClientHandle 1) m w1 = (x, w2)"
      by (cases "llm_try env_live (ClientHandle 1) m w1")
    have "x = Inr (if strip ([91] @ m @ [93]) \<noteq> [] then strip ([91] @ m @ [93]) else BLANKED_REPLY)"
      using t[of m w1] x by simp
    then show "fst (llm_reply env_live m initial_world)
              = Inr (if strip ([91] @ m @ [93]) \<noteq> [] then strip ([91] @ m @ [93]) else BLANKED_REPLY)"
      using w1 x by (simp add: llm_reply_def)
  qed
  have a: "strip (ascii ''  hello  '') = ascii ''hello''"
    by (simp add: strip_def ascii_def isspace_def)
  have b: "fst (llm_reply env_live (ascii ''  hello  '') initial_world) = Inr (ascii ''[  hello  ]'')"
    unfolding r by (simp add: strip_def ascii_def isspace_def)
  have c: "fst (llm_reply env_live (ascii ''hello'') initial_world) = Inr (ascii ''[hello]'')"
    unfolding r by (simp add: strip_def ascii_def isspace_def)
  have d: "ascii ''[  hello  ]'' \<noteq> ascii ''[hello]''"
    by (simp add: ascii_def)
  show ?thesis using a b c d by simp
qed

text \<open>
  C7, amended. The trimming is done by \<open>chatbot_response\<close>: a POST whose message is
  \<open>s\<close> and a POST whose message is \<open>s\<close> trimmed get the same response and leave the
  same state, whatever the client cache and the remote service do; when the trimmed
  message is not empty the handler calls the resolver on the trimmed message. The
  resolver does not trim: when the cache yields a client, the one remote call
  \<open>_llm_reply\<close> makes on \<open>m\<close> carries the system prompt and then \<open>m\<close> itself as the
  user message. So the one remote call the handler causes carries the trimmed message.
\<close>

theorem chatbot_response_trims_message:
  assumes "http_method rq1 = ascii ''POST''"
      and "json_loads e (body rq1) = Inr (PDict d1)"
      and "map_of d1 (ascii ''message'') = Some (PStr s)"
      and "http_method rq2 = ascii ''POST''"
      and "json_loads e (body rq2) = Inr (PDict d2)"
      and "map_of d2 (ascii ''message'') = Some (PStr (strip s))"
  shows "chatbot_response e rq1 w = chatbot_response e rq2 w
       \<and> (strip s \<noteq> [] \<longrightarrow>
            chatbot_response e rq1 w =
              (case llm_reply e (strip s) w of
                 (Inl ex, w1) \<Rightarrow> (Inl ex, w1)
               | (Inr reply, w1) \<Rightarrow> (Inr (JsonResponse [(ascii ''reply'', PStr reply)]), w1)))
       \<and> req_messages (completion_request m) = [(ascii ''system'', SYSTEM_PROMPT), (ascii ''user'', m)]
       \<and> (fst (get_openai_client e w) = Inr (Some c) \<longrightarrow>
            remote_calls (snd (llm_reply e m w))
              = remote_calls w @ [Create_called c (completion_request m)])
       \<and> (strip s \<noteq> [] \<and> fst (get_openai_client e w) = Inr (Some c) \<longrightarrow>
            remote_calls (snd (chatbot_response e rq1 w))
              = remote_calls w @ [Create_called c (completion_request (strip s))])"
proof -
  have p1: "py_strip (py_or (PStr s) (PStr [])) = Inr (strip s)"
    by (simp add: py_or_def strip_Nil)
  have p2: "py_strip (py_or (PStr (strip s)) (PStr [])) = Inr (strip s)"
    by (simp add: py_or_def strip_Nil strip_idem)
  let ?via = "case llm_reply e (strip s) w of
                 (Inl ex, w1) \<Rightarrow> (Inl ex, w1)
               | (Inr reply, w1) \<Rightarrow> (Inr (JsonResponse [(ascii ''reply'', PStr reply)]), w1)"
  have a: "chatbot_response e rq1 w =
             (if strip s = [] then (Inr (JsonResponse [(ascii ''reply'', PStr NUDGE_REPLY)]), w)
              else ?via)"
    using assms(1,2,3) p1 by (simp add: chatbot_response_def)
  have b: "chatbot_response e rq2 w =
             (if strip s = [] then (Inr (JsonResponse [(ascii ''reply'', PStr NUDGE_REPLY)]), w)
              else ?via)"
    using assms(4,5,6) p2 by (simp add: chatbot_response_def)
  have c: "req_messages (completion_request m) = [(ascii ''system'', SYSTEM_PROMPT), (ascii ''user'', m)]"
    by (simp add: completion_request_def)
  have d: "fst (get_openai_client e w) = Inr (Some c) \<longrightarrow>
            remote_calls (snd (llm_reply e m w))
              = remote_calls w @ [Create_called c (completion_request m)]"
    using llm_reply_remote_calls[of e w c m] by blast
  have sv: "snd ?via = snd (llm_reply e (strip s) w)"
    by (cases "llm_reply e (strip s) w") (auto split: sum.splits)
  have f: "strip s \<noteq> [] \<and> fst (get_openai_client e w) = Inr (Some c) \<longrightarrow>
            remote_calls (snd (chatbot_response e rq1 w))
              = remote_calls w @ [Create_called c (completion_request (strip s))]"
    using a sv llm_reply_remote_calls[of e w c "strip s"] by simp
  have ab: "chatbot_response e rq1 w = chatbot_response e rq2 w" using a b by simp
  have a': "strip s \<noteq> [] \<longrightarrow> chatbot_response e rq1 w = ?via" using a by simp
  show ?thesis using ab a' c d f by blast
qed

theorem chatbot_response_trims_message_witness:
  "strip (ascii ''  hello  '') = ascii ''hello''
   \<and> chatbot_response env_live (post ''{\"message\": \"  hello  \"}'') initial_world
     = chatbot_response env_live (post ''{\"message\": \"hello\"}'') initial_world
   \<and> remote_calls (snd (chatbot_response env_live (post ''{\"message\": \"  hello  \"}'') initial_world))
     = [Create_called (ClientHandle 1) (completion_request (ascii ''hello''))]
   \<and> remote_calls (snd (llm_reply env_live (ascii ''  hello  '') initial_world))
     = [Create_called (ClientHandle 1) (completion_request (ascii ''  hello  ''))]"
proof -
  have s: "strip (ascii ''  hello  '') = ascii ''hello''"
    by (simp add: strip_def ascii_def isspace_def)
  have ne: "strip (ascii ''  hello  '') \<noteq> []"
    by (simp add: s) (simp add: ascii_def)
  have l1: "json_loads env_live (body (post ''{\"message\": \"  hello  \"}''))
              = Inr (PDict [(ascii ''message'', PStr (ascii ''  hello  ''))])"
    by (simp add: live_loads post_body loads_table_def)
  have m1: "map_of [(ascii ''message'', PStr (ascii ''  hello  ''))] (ascii ''message'')
              = Some (PStr (ascii ''  hello  ''))"
    by simp
  have l2: "json_loads env_live (body (post ''{\"message\": \"hello\"}''))
              = Inr (PDict [(ascii ''message'', PStr (ascii ''hello''))])"
    by (simp add: live_loads post_body loads_table_def)
  have m2: "map_of [(ascii ''message'', PStr (ascii ''hello''))] (ascii ''message'')
              = Some (PStr (strip (ascii ''  hello  '')))"
    by (simp add: s)
  have r0: "remote_calls initial_world = []"
    by (simp add: remote_calls_def initial_world_def)
  note t = chatbot_response_trims_message[OF post_method l1 m1 post_method l2 m2,
      of initial_world "ascii ''  hello  ''" "ClientHandle 1"]
  have a: "chatbot_response env_live (post ''{\"message\": \"  hello  \"}'') initial_world
     = chatbot_response env_live (post ''{\"message\": \"hello\"}'') initial_world"
    using t by blast
  have b: "remote_calls (snd (chatbot_response env_live (post ''{\"message\": \"  hello  \"}'') initial_world))
     = remote_calls initial_world @ [Create_called (ClientHandle 1) (completion_request (strip (ascii ''  hello  '')))]"
    using t ne live_client_plain by blast
  have c: "remote_calls (snd (llm_reply env_live (ascii ''  hello  '') initial_world))
     = remote_calls initial_world @ [Create_called (ClientHandle 1) (completion_request (ascii ''  hello  ''))]"
    using t live_client_plain by blast
  show ?thesis using s a b c r0 by simp
qed

text \<open>
  C1 fails on the code. A body that parses to a JSON array has no \<open>get\<close>, and a message
  that is the number 5 is truthy and has no \<open>strip\<close>: in both cases an AttributeError
  leaves \<open>chatbot_response\<close>, which is neither a 200 reply nor the 400 of a parse failure.
\<close>

theorem chatbot_response_unhandled_fault:
  "json_loads env_live (body (post ''[]'')) = Inr (PList [])
   \<and> fst (chatbot_response env_live (post ''[]'') initial_world)
       = Inl (AttributeError ''list'' ''get'')
   \<and> json_loads env_live (body (post ''{\"message\": 5}''))
       = Inr (PDict [(ascii ''message'', PInt 5)])
   \<and> fst (chatbot_response env_live (post ''{\"message\": 5}'') initial_world)
       = Inl (AttributeError ''int'' ''strip'')"
  by (simp add: chatbot_response_def live_loads post_body post_method loads_table_def py_or_def)

subsection \<open>The health probe\<close>

text \<open>
  C8, as stated, fails: a credential of 9 characters whose fifth character is the mask
  marker U+2026 is its own masked preview (here \<open>abcd\<close>, U+2026, \<open>wxyz\<close>), and so
  is the short credential \<open>(set)\<close>.
\<close>

theorem mask_key_equals_credential_counterexample:
  "8 < length [97, 98, 99, 100, 8230, 119, 120, 121, 122 :: nat]
   \<and> mask_key [97, 98, 99, 100, 8230, 119, 120, 121, 122]
       = [97, 98, 99, 100, 8230, 119, 120, 121, 122]
   \<and> mask_key (ascii ''(set)'') = ascii ''(set)''"
  by (simp add: mask_key_def ascii_def)

text \<open>
  C8, amended. For a credential longer than 8 characters the preview is its first 4
  characters, the marker U+2026 and its last 4 characters, 9 characters in all; it equals
  the credential only when the credential has exactly 9 characters and the marker as its
  fifth. A shorter credential gives the fixed text \<open>(set)\<close>, an absent or empty one
  \<open>(missing)\<close>. In the answer of \<open>chat_health\<close> the field \<open>key_seen\<close> is that
  preview of the credential in use, and every other field is a boolean.
\<close>

theorem mask_key_preview:
  "(8 < length s \<longrightarrow>
      mask_key s = take 4 s @ [8230] @ drop (length s - 4) s
      \<and> length (mask_key s) = 9
      \<and> (mask_key s = s) = (length s = 9 \<and> s ! 4 = 8230))
   \<and> (s \<noteq> [] \<and> length s \<le> 8 \<longrightarrow> mask_key s = ascii ''(set)'')
   \<and> (s = [] \<longrightarrow> mask_key s = ascii ''(missing)'')
   \<and> (\<exists>c. fst (chat_health e rq w) =
         Inr (JsonResponse
            [(ascii ''sdk_installed'', PBool (OpenAI e \<noteq> None)),
             (ascii ''has_key_in_settings'', PBool (str_truthy (settings_OPENAI_API_KEY e))),
             (ascii ''has_key_in_env'', PBool (str_truthy (os_getenv_OPENAI_API_KEY e))),
             (ascii ''key_seen'', PStr (mask_key (str_or_empty (openai_api_key e)))),
             (ascii ''client_initialized'', PBool c),
             (ascii ''debug'', PBool (getattr_DEBUG e))]))"
proof -
  have a: "8 < length s \<longrightarrow>
      mask_key s = take 4 s @ [8230] @ drop (length s - 4) s
      \<and> length (mask_key s) = 9
      \<and> (mask_key s = s) = (length s = 9 \<and> s ! 4 = 8230)"
    using mask_key_long[of s] mask_key_long_length[of s] mask_key_self[of s] by blast
  have b: "s \<noteq> [] \<and> length s \<le> 8 \<longrightarrow> mask_key s = ascii ''(set)''"
    by (simp add: mask_key_def)
  have c: "s = [] \<longrightarrow> mask_key s = ascii ''(missing)''"
    by (simp add: mask_key_def)
  show ?thesis using a b c chat_health_shape[of e rq w] by blast
qed

theorem mask_key_preview_witness:
  "8 < length (ascii ''sk-settings-0001'')
   \<and> mask_key (ascii ''sk-settings-0001'') = ascii ''sk-s'' @ [8230] @ ascii ''0001''
   \<and> mask_key (ascii ''sk-settings-0001'') \<noteq> ascii ''sk-settings-0001''
   \<and> mask_key (ascii ''short'') = ascii ''(set)''
   \<and> mask_key [] = ascii ''(missing)''"
proof -
  have h1: "8 < length (ascii ''sk-settings-0001'')" by (simp add: ascii_def)
  have h1': "length (ascii ''sk-settings-0001'') \<noteq> 9" by (simp add: ascii_def)
  have h2: "ascii ''short'' \<noteq> [] \<and> length (ascii ''short'') \<le> 8" by (simp add: ascii_def)
  have t: "take 4 (ascii ''sk-settings-0001'') @ [8230]
             @ drop (length (ascii ''sk-settings-0001'') - 4) (ascii ''sk-settings-0001'')
           = ascii ''sk-s'' @ [8230] @ ascii ''0001''"
    by (simp add: ascii_def)
  note k = mask_key_preview[of "ascii ''sk-settings-0001''" env_live "post []" initial_world]
  note sh = mask_key_preview[of "ascii ''short''" env_live "post []" initial_world]
  note em = mask_key_preview[of "[]" env_live "post []" initial_world]
  have a: "mask_key (ascii ''sk-settings-0001'') = ascii ''sk-s'' @ [8230] @ ascii ''0001''"
    using k h1 t by simp
  have b: "mask_key (ascii ''sk-settings-0001'') \<noteq> ascii ''sk-settings-0001''"
    using k h1 h1' by blast
  have c: "mask_key (ascii ''short'') = ascii ''(set)''"
    using sh h2 by blast
  have d: "mask_key [] = ascii ''(missing)''"
    using em by blast
  show ?thesis using h1 a b c d by blast
qed

end
